theory Spec2Isabelle
  imports Main
begin

section \<open>JavaScript values as the adapter sees them\<close>

text \<open>
  The adapter (\<^verbatim>\<open>src/kong/utils.ts\<close>) handles plain data: the desired configuration
  built from the portal API and the JSON documents returned by the Kong admin API.
  A number is only ever compared for equality, so it is a tagged integer with the one
  value \<^verbatim>\<open>NaN\<close> that is not equal to itself. An object is the list of its own enumerable
  properties in the order in which \<^verbatim>\<open>for (prop in ob)\<close> visits them; property names
  are distinct in JavaScript, lookups take the first entry.
\<close>

datatype jsnum = NaN | Num int

datatype jsval =
    JUndefined
  | JNull
  | JBool bool
  | JNum jsnum
  | JStr string
  | JArr "jsval list"
  | JObj "(string \<times> jsval) list"

text \<open>An \<^verbatim>\<open>Error\<close> object: its message and the \<^verbatim>\<open>status\<close> field that the adapter sets.\<close>

record js_error =
  message :: string
  status :: "nat option"

definition TypeError :: "string \<Rightarrow> js_error" where
  "TypeError m = \<lparr>message = ''TypeError: '' @ m, status = None\<rparr>"

definition Error :: "string \<Rightarrow> js_error" where
  "Error m = \<lparr>message = m, status = None\<rparr>"

text \<open>\<^verbatim>\<open>typeof\<close>: null, arrays and objects all have the run-time type "object".\<close>

fun typeof :: "jsval \<Rightarrow> string" where
  "typeof JUndefined = ''undefined''"
| "typeof JNull = ''object''"
| "typeof (JBool b) = ''boolean''"
| "typeof (JNum n) = ''number''"
| "typeof (JStr s) = ''string''"
| "typeof (JArr xs) = ''object''"
| "typeof (JObj ps) = ''object''"

text \<open>Decimal rendering of array indices, status codes and numbers.\<close>

definition digit_char :: "nat \<Rightarrow> char" where
  "digit_char d = ''0123456789'' ! d"

fun string_of_nat :: "nat \<Rightarrow> string" where
  "string_of_nat n =
     (if n < 10 then [digit_char n]
      else string_of_nat (n div 10) @ [digit_char (n mod 10)])"

declare string_of_nat.simps [simp del]

definition index_keys :: "nat \<Rightarrow> string list" where
  "index_keys n = map string_of_nat [0..<n]"

text \<open>
  The properties that \<^verbatim>\<open>for (let prop in ob)\<close> enumerates, in order: the entries of
  an object, the indices of an array, the character positions of a string; nothing for
  null, undefined, booleans and numbers. Data parsed from JSON or written as a literal
  inherits no enumerable property.
\<close>

fun enum_props :: "jsval \<Rightarrow> (string \<times> jsval) list" where
  "enum_props (JObj ps) = ps"
| "enum_props (JArr xs) = zip (index_keys (length xs)) xs"
| "enum_props (JStr s) = zip (index_keys (length s)) (map (\<lambda>c. JStr [c]) s)"
| "enum_props v = []"

text \<open>
  The own properties that \<^verbatim>\<open>hasOwnProperty\<close> and \<^verbatim>\<open>ob[prop]\<close> see: the enumerable
  ones, and for arrays and strings the non-enumerable \<^verbatim>\<open>length\<close>.
\<close>

fun own_props :: "jsval \<Rightarrow> (string \<times> jsval) list" where
  "own_props (JArr xs) = enum_props (JArr xs) @ [(''length'', JNum (Num (int (length xs))))]"
| "own_props (JStr s) = enum_props (JStr s) @ [(''length'', JNum (Num (int (length s))))]"
| "own_props v = enum_props v"

text \<open>
  \<^verbatim>\<open>ob.hasOwnProperty(prop)\<close> looks the method up on the value itself. Reading it from
  null or undefined throws a TypeError. An object that has a property of its own under
  the name \<^verbatim>\<open>hasOwnProperty\<close> yields that property instead of the method of
  \<^verbatim>\<open>Object.prototype\<close>; its value is data, never a function, so the call throws a
  TypeError. Arrays, strings, numbers and booleans have no such property. Everywhere else
  the method of \<^verbatim>\<open>Object.prototype\<close> tests the own properties.
\<close>

fun hasOwnProperty :: "jsval \<Rightarrow> string \<Rightarrow> js_error + bool" where
  "hasOwnProperty JNull p = Inl (TypeError ''Cannot read property hasOwnProperty of null'')"
| "hasOwnProperty JUndefined p =
     Inl (TypeError ''Cannot read property hasOwnProperty of undefined'')"
| "hasOwnProperty (JObj ps) p =
     (if map_of ps ''hasOwnProperty'' \<noteq> None
      then Inl (TypeError ''kongObject.hasOwnProperty is not a function'')
      else Inr (map_of ps p \<noteq> None))"
| "hasOwnProperty v p = Inr (map_of (own_props v) p \<noteq> None)"

text \<open>\<^verbatim>\<open>ob[prop]\<close> for an own property; a missing property reads as undefined.\<close>

definition get_own :: "jsval \<Rightarrow> string \<Rightarrow> jsval" where
  "get_own v p = (case map_of (own_props v) p of Some x \<Rightarrow> x | None \<Rightarrow> JUndefined)"

text \<open>
  \<^verbatim>\<open>a != b\<close> for two values of the same run-time type other than "object" (the only
  place where \<^verbatim>\<open>matchObjectsInternal\<close> uses it): the values differ, and NaN differs
  from everything including itself.
\<close>

fun loose_neq :: "jsval \<Rightarrow> jsval \<Rightarrow> bool" where
  "loose_neq (JNum NaN) b = True"
| "loose_neq a (JNum NaN) = True"
| "loose_neq a b = (a \<noteq> b)"

section \<open>Object matcher\<close>

text \<open>
  The measure of the recursion of \<^verbatim>\<open>matchObjectsInternal\<close>: it descends only into
  values of run-time type "object".
\<close>

fun osize :: "jsval \<Rightarrow> nat" where
  "osize (JObj ps) = Suc (sum_list (map (\<lambda>pv. Suc (osize (snd pv))) ps))"
| "osize (JArr xs) = Suc (sum_list (map (\<lambda>x. Suc (osize x)) xs))"
| "osize JNull = 1"
| "osize v = 0"

definition psize :: "(string \<times> jsval) list \<Rightarrow> nat" where
  "psize ps = sum_list (map (\<lambda>pv. Suc (osize (snd pv))) ps)"

lemma psize_simps [simp]:
  "psize [] = 0"
  "psize (pv # ps) = Suc (osize (snd pv)) + psize ps"
  by (simp_all add: psize_def)

lemma psize_zip:
  "length ks = length xs \<Longrightarrow> psize (zip ks xs) = sum_list (map (\<lambda>x. Suc (osize x)) xs)"
  by (induction ks xs rule: list_induct2) simp_all

lemma osize_object: "typeof v = ''object'' \<Longrightarrow> osize v = Suc (psize (enum_props v))"
  by (cases v) (simp_all add: psize_zip index_keys_def, simp add: psize_def)

text \<open>
  \<^verbatim>\<open>
  function matchObjectsInternal(apiObject, kongObject) {
      for (let prop in apiObject) {
          if (!kongObject.hasOwnProperty(prop)) return false;
          if ((typeof apiObject[prop]) != (typeof kongObject[prop])) return false;
          if (typeof apiObject[prop] == "object") { // Recurse please
              if (!matchObjectsInternal(apiObject[prop], kongObject[prop])) return false;
          } else { // other types
              if (apiObject[prop] != kongObject[prop]) return false;
          }
      }
      return true;
  }
  \<close>
  \<open>matchProps\<close> is the loop over the properties still to visit. A TypeError thrown by
  \<^verbatim>\<open>kongObject.hasOwnProperty\<close> leaves the function as \<open>Inl\<close>.
\<close>

function matchObjectsInternal :: "jsval \<Rightarrow> jsval \<Rightarrow> js_error + bool"
  and matchProps :: "(string \<times> jsval) list \<Rightarrow> jsval \<Rightarrow> js_error + bool" where
  "matchObjectsInternal apiObject kongObject = matchProps (enum_props apiObject) kongObject"
| "matchProps [] kongObject = Inr True"
| "matchProps ((prop, av) # rest) kongObject =
     (case hasOwnProperty kongObject prop of
        Inl e \<Rightarrow> Inl e
      | Inr False \<Rightarrow> Inr False
      | Inr True \<Rightarrow>
          if typeof av \<noteq> typeof (get_own kongObject prop) then Inr False
          else if typeof av = ''object'' then
            (case matchObjectsInternal av (get_own kongObject prop) of
               Inl e \<Rightarrow> Inl e
             | Inr False \<Rightarrow> Inr False
             | Inr True \<Rightarrow> matchProps rest kongObject)
          else if loose_neq av (get_own kongObject prop) then Inr False
          else matchProps rest kongObject)"
  by pat_completeness auto
termination
  by (relation "measure (\<lambda>x. case x of Inl (a, k) \<Rightarrow> Suc (psize (enum_props a))
                                     | Inr (ps, k) \<Rightarrow> psize ps)")
     (simp_all add: osize_object)

section \<open>Module state\<close>

datatype verb = GET | POST | DELETE | PATCH

fun verb_name :: "verb \<Rightarrow> string" where
  "verb_name GET = ''GET''"
| "verb_name POST = ''POST''"
| "verb_name DELETE = ''DELETE''"
| "verb_name PATCH = ''PATCH''"

text \<open>An entry of \<^verbatim>\<open>_statistics.actions\<close>: \<^verbatim>\<open>{method, url, body}\<close>.\<close>

record action =
  act_method :: verb
  act_url :: string
  act_body :: jsval

text \<open>An entry of \<^verbatim>\<open>_statistics.failedComparisons\<close>.\<close>

record failed_comparison =
  apiObject :: jsval
  kongObject :: jsval

text \<open>
  \<^verbatim>\<open>SyncStatistics\<close>: the two lists of \<^verbatim>\<open>defaultStatistics()\<close> and the counters that
  \<^verbatim>\<open>kongActionStat\<close> adds under the name of the verb.
\<close>

record sync_statistics =
  counters :: "verb \<Rightarrow> nat option"
  actions :: "action list"
  failedComparisons :: "failed_comparison list"

text \<open>The options object handed to \<^verbatim>\<open>request\<close> (\<^verbatim>\<open>methodBody\<close>).\<close>

record request_options =
  rq_method :: verb
  rq_url :: string
  rq_timeout :: nat
  rq_json :: bool
  rq_body :: "jsval option"

text \<open>
  The module variables \<^verbatim>\<open>_kongUrl\<close>, \<^verbatim>\<open>_kongAvailable\<close>, \<^verbatim>\<open>_kongMessage\<close>,
  \<^verbatim>\<open>_kongClusterStatus\<close>, \<^verbatim>\<open>_statistics\<close> and \<^verbatim>\<open>_keepChangingActions\<close>, and what
  the module does to the outside: \<open>wire\<close> is every call of \<^verbatim>\<open>request\<close> so far, oldest
  first; \<open>uncaught\<close> is the exception that ended the run, if one was thrown and not
  caught; \<open>calls\<close> is what the callback \<open>deliver\<close> below has been called with.
\<close>

record state =
  kongUrl :: "string option"
  kongAvailable :: bool
  kongMessage :: "string option"
  kongClusterStatus :: jsval
  statistics :: sync_statistics
  keepChangingActions :: bool
  wire :: "request_options list"
  uncaught :: "js_error option"
  calls :: "(js_error option \<times> jsval) list"

definition defaultStatistics :: sync_statistics where
  "defaultStatistics = \<lparr>counters = (\<lambda>m. None), actions = [], failedComparisons = []\<rparr>"

text \<open>The module as loaded: \<^verbatim>\<open>_kongAvailable = true\<close>, everything else null or empty.\<close>

definition initial_state :: state where
  "initial_state =
     \<lparr>kongUrl = None, kongAvailable = True, kongMessage = None, kongClusterStatus = JNull,
      statistics = defaultStatistics, keepChangingActions = False,
      wire = [], uncaught = None, calls = []\<rparr>"

definition setKongUrl :: "string \<Rightarrow> state \<Rightarrow> state" where
  "setKongUrl u s = s\<lparr>kongUrl := Some u\<rparr>"

definition markKongAvailable :: "bool \<Rightarrow> string option \<Rightarrow> jsval \<Rightarrow> state \<Rightarrow> state" where
  "markKongAvailable available msg clusterStatus s =
     s\<lparr>kongAvailable := available, kongMessage := msg, kongClusterStatus := clusterStatus\<rparr>"

definition isKongAvailable :: "state \<Rightarrow> bool" where
  "isKongAvailable s = kongAvailable s"

definition resetStatistics :: "bool \<Rightarrow> state \<Rightarrow> state" where
  "resetStatistics keep s =
     s\<lparr>statistics := defaultStatistics,
       keepChangingActions := (if keep then True else False)\<rparr>"

text \<open>\<^verbatim>\<open>getStatistics\<close> clears the flag and returns the statistics object.\<close>

definition getStatistics :: "state \<Rightarrow> sync_statistics \<times> state" where
  "getStatistics s = (statistics s, s\<lparr>keepChangingActions := False\<rparr>)"

text \<open>
  \<^verbatim>\<open>
  export function matchObjects(apiObject, kongObject) {
      const returnValue = matchObjectsInternal(apiObject, kongObject);
      if (!returnValue) {
          if (_keepChangingActions) {
              _statistics.failedComparisons.push({ apiObject: apiObject, kongObject: kongObject });
          }
      }
      return returnValue;
  };
  \<close>
  An exception of \<^verbatim>\<open>matchObjectsInternal\<close> passes through; the state is then as
  before.
\<close>

definition matchObjects :: "jsval \<Rightarrow> jsval \<Rightarrow> state \<Rightarrow> (js_error + bool) \<times> state" where
  "matchObjects a k s =
     (case matchObjectsInternal a k of
        Inl e \<Rightarrow> (Inl e, s)
      | Inr returnValue \<Rightarrow>
          (Inr returnValue,
           if \<not> returnValue \<and> keepChangingActions s
           then s\<lparr>statistics := (statistics s)\<lparr>failedComparisons :=
                   failedComparisons (statistics s) @ [\<lparr>apiObject = a, kongObject = k\<rparr>]\<rparr>\<rparr>
           else s))"

subsection \<open>What the matcher is specified to accept\<close>

text \<open>
  \<open>a == b\<close> for two values of the same run-time type other than "object".
\<close>

definition loose_eq :: "jsval \<Rightarrow> jsval \<Rightarrow> bool" where
  "loose_eq a b = (\<not> loose_neq a b)"

text \<open>
  The specification's containment, written from its words: observed contains, at every
  depth, every property of desired, with the same run-time type and a loosely equal
  value; for a property whose value has run-time type "object" the containment is that
  of the values. Null and undefined have no properties.
\<close>

function contains :: "jsval \<Rightarrow> jsval \<Rightarrow> bool"
  and contains_props :: "(string \<times> jsval) list \<Rightarrow> jsval \<Rightarrow> bool" where
  "contains desired observed = contains_props (enum_props desired) observed"
| "contains_props [] observed = True"
| "contains_props ((p, dv) # rest) observed =
     (case map_of (own_props observed) p of
        None \<Rightarrow> False
      | Some ov \<Rightarrow>
          typeof dv = typeof ov \<and>
          (if typeof dv = ''object'' then contains dv ov else loose_eq dv ov) \<and>
          contains_props rest observed)"
  by pat_completeness auto
termination
  by (relation "measure (\<lambda>x. case x of Inl (a, k) \<Rightarrow> Suc (psize (enum_props a))
                                     | Inr (ps, k) \<Rightarrow> psize ps)")
     (simp_all add: osize_object)

text \<open>
  A value none of whose objects, at any depth, has a property of its own under the name
  \<^verbatim>\<open>hasOwnProperty\<close>.
\<close>

fun plain :: "jsval \<Rightarrow> bool" where
  "plain (JObj ps) = (map_of ps ''hasOwnProperty'' = None \<and> list_all (\<lambda>pv. plain (snd pv)) ps)"
| "plain (JArr xs) = list_all plain xs"
| "plain v = True"

section \<open>Retrying action executor\<close>

definition KONG_TIMEOUT :: nat where
  "KONG_TIMEOUT = 5000"

definition KONG_MAX_ATTEMPTS :: nat where
  "KONG_MAX_ATTEMPTS = 10"

text \<open>
  What one call of \<^verbatim>\<open>request(methodBody, function (err, apiResponse, apiBody) ...)\<close>
  hands to its callback: a transport error, or a response with its status code and body.
\<close>

datatype outcome = Failure js_error | Response nat jsval

text \<open>
  What lies outside the file. \<open>transport\<close> is the network and the gateway: it answers a
  request given every request sent so far, this one last, so it may answer the third
  attempt differently from the first. \<open>json_parse\<close> is \<^verbatim>\<open>JSON.parse\<close>, \<open>None\<close> where it
  throws a SyntaxError. \<open>kongApiToServiceRoute\<close> and \<open>kongServiceRouteToApi\<close> are the
  translators of \<^verbatim>\<open>wicked-sdk\<close>, which return objects (\<^verbatim>\<open>KongService\<close>, \<^verbatim>\<open>KongRoute\<close>,
  \<^verbatim>\<open>KongApi\<close>) or throw. \<open>number_text\<close> is the text that JavaScript gives a number
  whose magnitude is \<^verbatim>\<open>1e21\<close> or more, which it prints in exponent form.
\<close>

record env =
  transport :: "request_options list \<Rightarrow> outcome"
  json_parse :: "string \<Rightarrow> jsval option"
  kongApiToServiceRoute :: "jsval \<Rightarrow> (string \<times> jsval) list \<times> (string \<times> jsval) list"
  kongServiceRouteToApi :: "jsval \<Rightarrow> jsval \<Rightarrow> js_error + jsval"
  number_text :: "int \<Rightarrow> string"

text \<open>
  A Node callback \<^verbatim>\<open>(err, result) => ...\<close> is what it does to the state; \<^verbatim>\<open>callback(err)\<close>
  passes undefined as the result. \<open>deliver\<close> is the caller that only notes what it was
  called with.
\<close>

type_synonym callback = "js_error option \<Rightarrow> jsval \<Rightarrow> state \<Rightarrow> state"

definition deliver :: callback where
  "deliver err res s = s\<lparr>calls := calls s @ [(err, res)]\<rparr>"

text \<open>A \<^verbatim>\<open>throw\<close> that nothing catches ends the run.\<close>

definition throw :: "js_error \<Rightarrow> state \<Rightarrow> state" where
  "throw e s = s\<lparr>uncaught := Some e\<rparr>"

text \<open>
  \<^verbatim>\<open>
  export function getKongUrl(): string {
      if (!_kongUrl)
          throw new Error('utils.setKongUrl was never called, kong URL is yet unknown');
      return _kongUrl;
  }
  \<close>
  Null and the empty string are falsy.
\<close>

definition getKongUrl :: "state \<Rightarrow> js_error + string" where
  "getKongUrl s =
     (case kongUrl s of
        None \<Rightarrow> Inl (Error ''utils.setKongUrl was never called, kong URL is yet unknown'')
      | Some u \<Rightarrow>
          if u = [] then Inl (Error ''utils.setKongUrl was never called, kong URL is yet unknown'')
          else Inr u)"

text \<open>
  \<^verbatim>\<open>
  export function getJson(ob): object {
      if (typeof ob === "string") {
          if (ob === "") return null;
          return JSON.parse(ob);
      }
      return ob;
  }
  \<close>
\<close>

definition getJson :: "env \<Rightarrow> jsval \<Rightarrow> js_error + jsval" where
  "getJson E ob =
     (case ob of
        JStr str \<Rightarrow>
          if str = [] then Inr JNull
          else (case json_parse E str of
                  None \<Rightarrow> Inl (Error ''SyntaxError: Unexpected token in JSON'')
                | Some v \<Rightarrow> Inr v)
      | _ \<Rightarrow> Inr ob)"

text \<open>
  \<^verbatim>\<open>
  function kongActionStat(method, url, body): void {
      if (!_statistics[method])
          _statistics[method] = 0;
      _statistics[method]++;
      if (_keepChangingActions && method != 'GET') {
          _statistics.actions.push({ method: method, url: url, body: body });
      }
  }
  \<close>
\<close>

definition kongActionStat :: "verb \<Rightarrow> string \<Rightarrow> jsval \<Rightarrow> state \<Rightarrow> state" where
  "kongActionStat method url body s =
     (let st = statistics s;
          n = (case counters st method of None \<Rightarrow> 0 | Some c \<Rightarrow> c);
          st1 = st\<lparr>counters := (counters st)(method \<mapsto> n + 1)\<rparr>;
          st2 = (if keepChangingActions s \<and> method \<noteq> GET
                 then st1\<lparr>actions := actions st1
                        @ [\<lparr>act_method = method, act_url = url, act_body = body\<rparr>]\<rparr>
                 else st1)
      in s\<lparr>statistics := st2\<rparr>)"

text \<open>The error of a response with an unexpected status code.\<close>

definition unexpected_status :: "verb \<Rightarrow> string \<Rightarrow> nat \<Rightarrow> nat \<Rightarrow> js_error" where
  "unexpected_status method url statusCode expectedStatusCode =
     \<lparr>message = ''kongAction '' @ verb_name method @ '' on '' @ url
         @ '' did not return the expected status code (got: '' @ string_of_nat statusCode
         @ '', expected: '' @ string_of_nat expectedStatusCode @ '').'',
      status = Some statusCode\<rparr>"

text \<open>
  \<^verbatim>\<open>
  function tryRequest(attempt: number) {
      request(methodBody, function (err, apiResponse, apiBody) {
          if (err) {
              if (attempt > KONG_MAX_ATTEMPTS) {
                  error(`kongAction: Giving up after ${KONG_MAX_ATTEMPTS} attempts to send a request to Kong.`);
                  _kongAvailable = true;
                  return callback(err);
              }
              _kongAvailable = false;
              setTimeout(tryRequest, KONG_RETRY_DELAY, attempt + 1);
              return;
          }
          _kongAvailable = true;
          if (expectedStatusCode != apiResponse.statusCode) {
              const err: any = new Error('kongAction ' + method + ' on ' + url + ' did not return the expected status code (got: ' + apiResponse.statusCode + ', expected: ' + expectedStatusCode + ').');
              err.status = apiResponse.statusCode;
              debug(method + ' /' + url); debug(methodBody); debug(apiBody);
              return callback(err);
          }
          callback(null, getJson(apiBody));
      });
  }
  \<close>
  The function closes over method, url, methodBody, expectedStatusCode and callback of
  the enclosing \<^verbatim>\<open>kongAction\<close>. The delay of the timer is not modelled: the retry follows
  at once. The debug log is not modelled.
\<close>

function tryRequest ::
  "env \<Rightarrow> verb \<Rightarrow> string \<Rightarrow> request_options \<Rightarrow> nat \<Rightarrow> callback \<Rightarrow> nat \<Rightarrow> state \<Rightarrow> state" where
  "tryRequest E method url methodBody expectedStatusCode callback attempt s =
     (case transport E (wire s @ [methodBody]) of
        Failure err \<Rightarrow>
          if attempt > KONG_MAX_ATTEMPTS
          then callback (Some err) JUndefined
                 (s\<lparr>wire := wire s @ [methodBody], kongAvailable := True\<rparr>)
          else tryRequest E method url methodBody expectedStatusCode callback (attempt + 1)
                 (s\<lparr>wire := wire s @ [methodBody], kongAvailable := False\<rparr>)
      | Response statusCode apiBody \<Rightarrow>
          if expectedStatusCode \<noteq> statusCode
          then callback (Some (unexpected_status method url statusCode expectedStatusCode))
                 JUndefined (s\<lparr>wire := wire s @ [methodBody], kongAvailable := True\<rparr>)
          else (case getJson E apiBody of
                  Inl e \<Rightarrow> throw e (s\<lparr>wire := wire s @ [methodBody], kongAvailable := True\<rparr>)
                | Inr v \<Rightarrow>
                    callback None v
                      (s\<lparr>wire := wire s @ [methodBody], kongAvailable := True\<rparr>)))"
  by pat_completeness auto
termination
  by (relation "measure (\<lambda>(E, method, url, methodBody, expected, callback, attempt, s).
                  Suc KONG_MAX_ATTEMPTS - attempt)")
     (simp_all add: KONG_MAX_ATTEMPTS_def)

declare tryRequest.simps [simp del]

text \<open>The text that string concatenation gives for \<^verbatim>\<open>_kongMessage\<close>, which may be null.\<close>

definition message_text :: "string option \<Rightarrow> string" where
  "message_text m = (case m of None \<Rightarrow> ''null'' | Some t \<Rightarrow> t)"

definition unavailable_error :: "string option \<Rightarrow> js_error" where
  "unavailable_error m =
     \<lparr>message = ''kong admin end point not available: '' @ message_text m,
      status = Some 500\<rparr>"

text \<open>
  \<^verbatim>\<open>
  function kongAction(method, url, body, expectedStatusCode, callback: Callback<any>): void {
      kongActionStat(method, url, body);
      if (!_kongAvailable) {
          const err: any = new Error('kong admin end point not available: ' + _kongMessage);
          err.status = 500;
          return callback(err);
      }
      const kongUrl = getKongUrl();
      const methodBody: any = { method: method, url: kongUrl + url, timeout: KONG_TIMEOUT };
      if (method != 'DELETE' && method != 'GET') {
          methodBody.json = true;
          methodBody.body = body;
      }
      function tryRequest(attempt: number) { ... }
      tryRequest(0);
  }
  \<close>
  The echo of the call to the console under \<^verbatim>\<open>KONG_CURL\<close> is not modelled.
\<close>

definition methodBody_of :: "verb \<Rightarrow> string \<Rightarrow> string \<Rightarrow> jsval \<Rightarrow> request_options" where
  "methodBody_of method base url body =
     (if method \<noteq> DELETE \<and> method \<noteq> GET
      then \<lparr>rq_method = method, rq_url = base @ url, rq_timeout = KONG_TIMEOUT,
            rq_json = True, rq_body = Some body\<rparr>
      else \<lparr>rq_method = method, rq_url = base @ url, rq_timeout = KONG_TIMEOUT,
            rq_json = False, rq_body = None\<rparr>)"

definition kongAction ::
  "env \<Rightarrow> verb \<Rightarrow> string \<Rightarrow> jsval \<Rightarrow> nat \<Rightarrow> callback \<Rightarrow> state \<Rightarrow> state" where
  "kongAction E method url body expectedStatusCode callback s =
     (let s1 = kongActionStat method url body s in
      if \<not> kongAvailable s1
      then callback (Some (unavailable_error (kongMessage s1))) JUndefined s1
      else (case getKongUrl s1 of
              Inl e \<Rightarrow> throw e s1
            | Inr base \<Rightarrow>
                tryRequest E method url (methodBody_of method base url body)
                  expectedStatusCode callback 0 s1))"

definition kongGet :: "env \<Rightarrow> string \<Rightarrow> callback \<Rightarrow> state \<Rightarrow> state" where
  "kongGet E url callback = kongAction E GET url JNull 200 callback"

definition kongPost :: "env \<Rightarrow> string \<Rightarrow> jsval \<Rightarrow> callback \<Rightarrow> state \<Rightarrow> state" where
  "kongPost E url body callback = kongAction E POST url body 201 callback"

definition kongDelete :: "env \<Rightarrow> string \<Rightarrow> callback \<Rightarrow> state \<Rightarrow> state" where
  "kongDelete E url callback = kongAction E DELETE url JNull 204 callback"

definition kongPatch :: "env \<Rightarrow> string \<Rightarrow> jsval \<Rightarrow> callback \<Rightarrow> state \<Rightarrow> state" where
  "kongPatch E url body callback = kongAction E PATCH url body 200 callback"

section \<open>Resource accessors\<close>

text \<open>
  Reading a property, \<^verbatim>\<open>ob.name\<close> or \<^verbatim>\<open>ob[0]\<close>: a TypeError on null and undefined, the
  own property or undefined otherwise. The names this file reads (\<^verbatim>\<open>id\<close>, \<^verbatim>\<open>data\<close>,
  \<^verbatim>\<open>service\<close>, \<^verbatim>\<open>length\<close>, \<^verbatim>\<open>0\<close>) are none that a prototype supplies.
\<close>

fun get_member :: "jsval \<Rightarrow> string \<Rightarrow> js_error + jsval" where
  "get_member JNull p = Inl (TypeError (''Cannot read property '' @ p @ '' of null''))"
| "get_member JUndefined p = Inl (TypeError (''Cannot read property '' @ p @ '' of undefined''))"
| "get_member v p = Inr (get_own v p)"

text \<open>\<^verbatim>\<open>ob.name = v\<close> on an object: the property keeps its place, a new one goes last.\<close>

fun set_prop :: "string \<Rightarrow> jsval \<Rightarrow> (string \<times> jsval) list \<Rightarrow> (string \<times> jsval) list" where
  "set_prop k v [] = [(k, v)]"
| "set_prop k v ((k', v') # ps) = (if k = k' then (k, v) # ps else (k', v') # set_prop k v ps)"

text \<open>Truthiness, as \<^verbatim>\<open>if (x)\<close> and \<^verbatim>\<open>!x\<close> see it.\<close>

fun truthy :: "jsval \<Rightarrow> bool" where
  "truthy JUndefined = False"
| "truthy JNull = False"
| "truthy (JBool b) = b"
| "truthy (JNum NaN) = False"
| "truthy (JNum (Num i)) = (i \<noteq> 0)"
| "truthy (JStr str) = (str \<noteq> [])"
| "truthy v = True"

text \<open>
  The text of a value inside a template literal. An integer below \<^verbatim>\<open>1e21\<close> in magnitude
  is printed with all its decimal digits.
\<close>

fun join_commas :: "string list \<Rightarrow> string" where
  "join_commas [] = []"
| "join_commas [x] = x"
| "join_commas (x # y # ys) = x @ '','' @ join_commas (y # ys)"

fun js_to_string :: "env \<Rightarrow> jsval \<Rightarrow> string" where
  "js_to_string E JUndefined = ''undefined''"
| "js_to_string E JNull = ''null''"
| "js_to_string E (JBool b) = (if b then ''true'' else ''false'')"
| "js_to_string E (JNum NaN) = ''NaN''"
| "js_to_string E (JNum (Num i)) =
     (if 10 ^ 21 \<le> \<bar>i\<bar> then number_text E i
      else if i < 0 then ''-'' @ string_of_nat (nat (- i))
      else string_of_nat (nat i))"
| "js_to_string E (JStr str) = str"
| "js_to_string E (JArr xs) =
     join_commas (map (\<lambda>x. if x = JNull \<or> x = JUndefined then [] else js_to_string E x) xs)"
| "js_to_string E (JObj ps) = ''[object Object]''"


definition kongPatchService :: "env \<Rightarrow> string \<Rightarrow> jsval \<Rightarrow> callback \<Rightarrow> state \<Rightarrow> state" where
  "kongPatchService E serviceId service callback =
     kongPatch E (''services/'' @ serviceId) service callback"

definition kongDeleteService :: "env \<Rightarrow> string \<Rightarrow> callback \<Rightarrow> state \<Rightarrow> state" where
  "kongDeleteService E serviceId callback = kongDelete E (''services/'' @ serviceId) callback"


text \<open>The route identifier comes from a response, so it is whatever value the gateway sent.\<close>

definition kongPatchRoute :: "env \<Rightarrow> jsval \<Rightarrow> jsval \<Rightarrow> callback \<Rightarrow> state \<Rightarrow> state" where
  "kongPatchRoute E routeId route callback =
     kongPatch E (''routes/'' @ js_to_string E routeId) route callback"

definition kongDeleteRoute :: "env \<Rightarrow> jsval \<Rightarrow> callback \<Rightarrow> state \<Rightarrow> state" where
  "kongDeleteRoute E routeId callback = kongDelete E (''routes/'' @ js_to_string E routeId) callback"

text \<open>
  \<^verbatim>\<open>
  function kongGetRouteForService(serviceId: string, callback: Callback<KongRoute>): void {
      kongGet(`services/${serviceId}/routes`, function (err, routes: KongCollection<KongRoute>) {
          if (err)
              return callback(err);
          if (routes.data.length === 0)
              return callback(null, null);
          if (routes.data.length === 1)
              return callback(null, routes.data[0]);
          warn(`kongGetRouteForService(${serviceId}): Multiple routes found, returning the first one.`);
          return callback(null, routes.data[0]);
      })
  }
  \<close>
\<close>

definition kongGetRouteForService :: "env \<Rightarrow> string \<Rightarrow> callback \<Rightarrow> state \<Rightarrow> state" where
  "kongGetRouteForService E serviceId callback =
     kongGet E (''services/'' @ serviceId @ ''/routes'')
       (\<lambda>err routes s.
          if err \<noteq> None then callback err JUndefined s
          else (case get_member routes ''data'' of
                  Inl e \<Rightarrow> throw e s
                | Inr data \<Rightarrow>
                    (case get_member data ''length'' of
                       Inl e \<Rightarrow> throw e s
                     | Inr len \<Rightarrow>
                         if len = JNum (Num 0) then callback None JNull s
                         else if len = JNum (Num 1) then callback None (get_own data ''0'') s
                         else callback None (get_own data ''0'') s)))"


text \<open>
  \<^verbatim>\<open>
  export function kongPatchApi(apiId: string, apiConfig: KongApi, callback: Callback<KongApi>): void {
      const { service, route } = wicked.kongApiToServiceRoute(apiConfig);
      service.id = apiId;
      kongGetRouteForService(apiId, function (err, existingRoute) {
          if (err)
              return err;
          if (!existingRoute)
              return callback(new Error(`Could not retrieve route for service ${apiId}`));
          route.id = existingRoute.id;
          route.service = { id: existingRoute.service.id };
          async.series({
              persistedService: callback => kongPatchService(apiId, service, callback),
              persistedRoute: callback => kongPatchRoute(route.id, route, callback)
          }, function (err, results) {
              return callback(null, wicked.kongServiceRouteToApi(results.persistedService, results.persistedRoute));
          })
      });
  }
  \<close>
  \<^verbatim>\<open>async.series\<close> runs the tasks in order, stores each result under its key, and goes to
  the final function with the error and the results so far as soon as a task reports an
  error; the result of a task not run is undefined.
\<close>

definition kongPatchApi :: "env \<Rightarrow> string \<Rightarrow> jsval \<Rightarrow> callback \<Rightarrow> state \<Rightarrow> state" where
  "kongPatchApi E apiId apiConfig callback =
     (case kongApiToServiceRoute E apiConfig of
        (service0, route0) \<Rightarrow>
          kongGetRouteForService E apiId
            (\<lambda>err existingRoute s.
               if err \<noteq> None then s
               else if \<not> truthy existingRoute
               then callback (Some (Error (''Could not retrieve route for service '' @ apiId)))
                      JUndefined s
               else (case get_member existingRoute ''id'' of
                       Inl e \<Rightarrow> throw e s
                     | Inr rid \<Rightarrow>
                         (case get_member existingRoute ''service'' of
                            Inl e \<Rightarrow> throw e s
                          | Inr rsv \<Rightarrow>
                              (case get_member rsv ''id'' of
                                 Inl e \<Rightarrow> throw e s
                               | Inr rsid \<Rightarrow>
                                   kongPatchService E apiId
                                     (JObj (set_prop ''id'' (JStr apiId) service0))
                                     (\<lambda>err persistedService s.
                                        if err \<noteq> None
                                        then (case kongServiceRouteToApi E persistedService JUndefined of
                                                Inl e \<Rightarrow> throw e s
                                              | Inr api \<Rightarrow> callback None api s)
                                        else kongPatchRoute E rid
                                               (JObj (set_prop ''service'' (JObj [(''id'', rsid)])
                                                        (set_prop ''id'' rid route0)))
                                               (\<lambda>err persistedRoute s.
                                                  case kongServiceRouteToApi E persistedService
                                                         persistedRoute of
                                                    Inl e \<Rightarrow> throw e s
                                                  | Inr api \<Rightarrow> callback None api s)
                                               s)
                                     s)))))"

text \<open>
  \<^verbatim>\<open>
  export function kongDeleteApi(apiId: string, callback: ErrorCallback): void {
      kongGetRouteForService(apiId, function (err, route) {
          if (err)
              return callback(err);
          kongDeleteRoute(route.id, function (err) {
              if (err)
                  return callback(err);
              kongDeleteService(apiId, callback);
          })
      });
  }
  \<close>
\<close>

definition kongDeleteApi :: "env \<Rightarrow> string \<Rightarrow> callback \<Rightarrow> state \<Rightarrow> state" where
  "kongDeleteApi E apiId callback =
     kongGetRouteForService E apiId
       (\<lambda>err route s.
          if err \<noteq> None then callback err JUndefined s
          else (case get_member route ''id'' of
                  Inl e \<Rightarrow> throw e s
                | Inr rid \<Rightarrow>
                    kongDeleteRoute E rid
                      (\<lambda>err res s.
                         if err \<noteq> None then callback err JUndefined s
                         else kongDeleteService E apiId callback s)
                      s))"

subsection \<open>Simulated surroundings\<close>

text \<open>
  A transport that refuses the first \<open>n\<close> requests and answers every later one with
  \<open>r\<close>; a gateway that answers each request by verb and URL from a table and refuses
  the others; and surroundings with a given transport, a \<^verbatim>\<open>JSON.parse\<close> that knows the
  text of the empty object, translators that return empty objects, and one text for
  every large number.
\<close>

definition fails_then :: "nat \<Rightarrow> outcome \<Rightarrow> request_options list \<Rightarrow> outcome" where
  "fails_then n r h = (if length h \<le> n then Failure (Error ''ECONNREFUSED'') else r)"

definition scripted ::
  "((verb \<times> string) \<times> outcome) list \<Rightarrow> request_options list \<Rightarrow> outcome" where
  "scripted table h =
     (case map_of table (rq_method (last h), rq_url (last h)) of
        Some r \<Rightarrow> r
      | None \<Rightarrow> Failure (Error ''ECONNREFUSED''))"

definition sim_env :: "(request_options list \<Rightarrow> outcome) \<Rightarrow> env" where
  "sim_env t =
     \<lparr>transport = t,
      json_parse = (\<lambda>str. if str = ''{}'' then Some (JObj []) else None),
      kongApiToServiceRoute = (\<lambda>api. ([], [])),
      kongServiceRouteToApi = (\<lambda>sv rt. Inr (JObj [])),
      number_text = (\<lambda>i. ''1e+21'')\<rparr>"

text \<open>The module after \<^verbatim>\<open>setKongUrl('http://kong:8001/')\<close>.\<close>

definition ready_state :: state where
  "ready_state = setKongUrl ''http://kong:8001/'' initial_state"

subsection \<open>States of a run\<close>

text \<open>The state after \<open>n\<close> failed attempts that were each followed by a retry.\<close>

definition after_failures :: "nat \<Rightarrow> request_options \<Rightarrow> state \<Rightarrow> state" where
  "after_failures n req s =
     s\<lparr>wire := wire s @ replicate n req,
       kongAvailable := (if n = 0 then kongAvailable s else False)\<rparr>"


subsection \<open>Simulated gateways\<close>




text \<open>
  A gateway with the service s1 and its route r1, a service s2 without a route, and a
  service s3 whose route lookup fails. It rejects every update of s1.
\<close>

definition gateway :: env where
  \<open>gateway =
     (sim_env (scripted
        [((GET, ''http://kong:8001/services/s1/routes''),
            Response 200 (JStr ''{"data":[{"id":"r1","service":{"id":"s1"}}]}'')),
         ((GET, ''http://kong:8001/services/s2/routes''), Response 200 (JStr ''{"data":[]}'')),
         ((GET, ''http://kong:8001/services/s3/routes''), Response 500 (JStr ''internal error'')),
         ((PATCH, ''http://kong:8001/services/s1''),
            Response 400 (JObj [(''message'', JStr ''schema violation'')])),
         ((DELETE, ''http://kong:8001/routes/r1''), Response 204 (JStr [])),
         ((DELETE, ''http://kong:8001/services/s1''), Response 204 (JStr []))]))
     \<lparr>json_parse := map_of
        [(''{"data":[{"id":"r1","service":{"id":"s1"}}]}'',
            JObj [(''data'', JArr [JObj [(''id'', JStr ''r1''),
                                          (''service'', JObj [(''id'', JStr ''s1'')])]])]),
         (''{"data":[]}'', JObj [(''data'', JArr [])])]\<rparr>\<close>

declare contains.simps [simp del] matchObjectsInternal.simps [simp del]

section \<open>Properties of the object matcher\<close>

lemma plain_own:
  assumes "plain k" and "map_of (own_props k) p = Some ov"
  shows "plain ov"
proof (cases k)
  case (JObj ps)
  with assms have "(p, ov) \<in> set ps" by (auto dest: map_of_SomeD)
  with assms(1) JObj show ?thesis by (auto simp: list_all_iff)
next
  case (JArr xs)
  with assms(2) have "ov \<in> set xs \<or> ov = JNum (Num (int (length xs)))"
    by (auto split: option.splits if_splits dest!: map_of_SomeD set_zip_rightD)
  with assms(1) JArr show ?thesis by (auto simp: list_all_iff)
next
  case (JStr str)
  with assms(2) have "(\<exists>c. ov = JStr [c]) \<or> ov = JNum (Num (int (length str)))"
    by (auto split: option.splits if_splits dest!: map_of_SomeD set_zip_rightD)
  then show ?thesis by auto
qed (use assms in simp_all)

lemma hasOwnProperty_present:
  "plain k \<Longrightarrow> map_of (own_props k) p = Some ov \<Longrightarrow> hasOwnProperty k p = Inr True"
  by (cases k) auto

lemma hasOwnProperty_absent:
  "map_of (own_props k) p = None \<Longrightarrow> hasOwnProperty k p \<noteq> Inr True"
  by (cases k) auto

text \<open>
  Where observed has the property, the lookup of the method either succeeds or throws
  because the method is shadowed; and it throws the same error for every property.
\<close>

lemma hasOwnProperty_cases:
  "map_of (own_props k) p = Some ov \<Longrightarrow>
     hasOwnProperty k p = Inr True
     \<or> hasOwnProperty k p = Inl (TypeError ''kongObject.hasOwnProperty is not a function'')"
  by (cases k) auto

lemma hasOwnProperty_error_any:
  "hasOwnProperty k p = Inl e \<Longrightarrow> hasOwnProperty k q = Inl e"
  by (cases k) (auto split: if_splits)

lemma contains_matches:
  "plain ob \<longrightarrow> contains d ob \<longrightarrow> matchObjectsInternal d ob = Inr True"
  "plain ob \<longrightarrow> contains_props ps ob \<longrightarrow> matchProps ps ob = Inr True"
proof (induction d ob and ps ob rule: matchObjectsInternal_matchProps.induct)
  case (1 apiObject kongObject)
  then show ?case by (simp add: contains.simps matchObjectsInternal.simps)
next
  case (2 kongObject)
  then show ?case by simp
next
  case (3 prp av rest kongObject)
  show ?case
  proof (intro impI)
    assume pl: "plain kongObject"
    assume c: "contains_props ((prp, av) # rest) kongObject"
    then obtain ov where ov: "map_of (own_props kongObject) prp = Some ov"
      by (auto split: option.splits)
    have h: "hasOwnProperty kongObject prp = Inr True"
      using pl ov by (rule hasOwnProperty_present)
    have g: "get_own kongObject prp = ov"
      using ov by (simp add: get_own_def)
    have po: "plain ov"
      using pl ov by (rule plain_own)
    from c ov have t: "typeof av = typeof ov" and r: "contains_props rest kongObject"
      and v: "if typeof av = ''object'' then contains av ov else loose_eq av ov"
      by simp_all
    show "matchProps ((prp, av) # rest) kongObject = Inr True"
    proof (cases "typeof av = ''object''")
      case True
      with v have "contains av ov" by simp
      with 3(1)[OF h] t g True po have m: "matchObjectsInternal av ov = Inr True" by simp
      from 3(2)[OF h] t g True r m pl have "matchProps rest kongObject = Inr True" by simp
      with m show ?thesis using h t g True by simp
    next
      case False
      with v have n: "\<not> loose_neq av ov" by (simp add: loose_eq_def)
      from 3(3)[OF h] t g False r n pl have "matchProps rest kongObject = Inr True" by simp
      with n show ?thesis using h t g False by simp
    qed
  qed
qed

text \<open>
  Where no object of observed has a property of its own named \<^verbatim>\<open>hasOwnProperty\<close>, the
  matcher accepts every observed that contains desired, and records nothing.
\<close>

lemma matchObjects_superset_plain:
  assumes "plain observed" and "contains desired observed"
  shows "matchObjects desired observed s = (Inr True, s)"
proof -
  from assms have "matchObjectsInternal desired observed = Inr True"
    using contains_matches(1) by blast
  then show ?thesis by (simp add: matchObjects_def)
qed

text \<open>
  C1. The claim is that \<^verbatim>\<open>matchObjects\<close> returns true whenever observed contains desired,
  whatever extra properties observed has. Here desired is \<^verbatim>\<open>{a: 1}\<close> and observed is
  \<^verbatim>\<open>{a: 1, hasOwnProperty: 1}\<close>: observed contains desired, with one extra property. The
  extra property shadows the method that the loop calls on observed, so
  \<^verbatim>\<open>kongObject.hasOwnProperty(prop)\<close> calls the number 1 and throws a TypeError;
  \<^verbatim>\<open>matchObjects\<close> does not return.
\<close>

theorem matchObjects_superset_throws_on_shadowed_method:
  "contains (JObj [(''a'', JNum (Num 1))])
            (JObj [(''a'', JNum (Num 1)), (''hasOwnProperty'', JNum (Num 1))])
   \<and> matchObjects (JObj [(''a'', JNum (Num 1))])
                  (JObj [(''a'', JNum (Num 1)), (''hasOwnProperty'', JNum (Num 1))])
                  initial_state
       = (Inl (TypeError ''kongObject.hasOwnProperty is not a function''), initial_state)"
  by (simp add: contains.simps loose_eq_def matchObjects_def matchObjectsInternal.simps)

lemma matchProps_append:
  "matchProps (xs @ ys) k =
     (case matchProps xs k of
        Inl e \<Rightarrow> Inl e
      | Inr False \<Rightarrow> Inr False
      | Inr True \<Rightarrow> matchProps ys k)"
proof (induction xs)
  case Nil
  then show ?case by simp
next
  case (Cons x xs)
  obtain p v where x: "x = (p, v)" by (cases x)
  show ?case
  proof (cases "hasOwnProperty k p")
    case (Inl e)
    then show ?thesis by (simp add: x)
  next
    case h: (Inr b)
    show ?thesis
    proof (cases "matchObjectsInternal v (get_own k p)")
      case (Inl e)
      with h show ?thesis by (cases b) (simp_all add: x Cons.IH)
    next
      case (Inr c)
      with h show ?thesis by (cases b; cases c) (simp_all add: x Cons.IH)
    qed
  qed
qed

text \<open>The loop over an object with a shadowed method throws at the first property.\<close>

lemma matchProps_shadowed:
  assumes "hasOwnProperty k p = Inl e" and "ps \<noteq> []"
  shows "matchProps ps k = Inl e"
proof (cases ps)
  case Nil
  with assms(2) show ?thesis by simp
next
  case (Cons x rest)
  obtain q v where x: "x = (q, v)" by (cases x)
  from assms(1) have "hasOwnProperty k q = Inl e" by (rule hasOwnProperty_error_any)
  with Cons x show ?thesis by simp
qed

lemma matchObjectsInternal_null: "matchObjectsInternal JNull ov = Inr True"
  by (simp add: matchObjectsInternal.simps)

lemma matchProps_null_property:
  assumes "hasOwnProperty observed p = Inr True"
    and "map_of (own_props observed) p = Some ov" and "typeof ov = ''object''"
  shows "matchProps ((p, JNull) # rest) observed = matchProps rest observed"
  using assms by (simp add: get_own_def matchObjectsInternal_null)

text \<open>
  C10. Let a property of desired have the value null, and let observed have that
  property with a value of run-time type "object" (an object, an array, or null). The
  comparison of the two values succeeds: the loop over null has nothing to visit. So the
  property never makes the matcher report a mismatch: the comparison of the whole
  objects gives what it gives without that property, and a desired object with that
  property alone matches, with nothing recorded. The one other outcome is the TypeError
  of the call \<^verbatim>\<open>kongObject.hasOwnProperty(prop)\<close> itself, where observed shadows the
  method; that call throws for every property, null or not, and it is no mismatch.
\<close>

theorem matchObjects_null_desired_never_mismatch:
  assumes "map_of (own_props observed) p = Some ov" and "typeof ov = ''object''"
  shows "matchObjectsInternal JNull ov = Inr True
       \<and> matchObjectsInternal (JObj (before @ (p, JNull) # after)) observed
           = (case hasOwnProperty observed p of
                Inl e \<Rightarrow> Inl e
              | Inr b \<Rightarrow> matchObjectsInternal (JObj (before @ after)) observed)
       \<and> matchObjects (JObj [(p, JNull)]) observed s
           = (case hasOwnProperty observed p of Inl e \<Rightarrow> Inl e | Inr b \<Rightarrow> Inr True, s)
       \<and> fst (matchObjects (JObj [(p, JNull)]) observed s) \<noteq> Inr False"
proof -
  from hasOwnProperty_cases [OF assms(1)]
  consider (found) "hasOwnProperty observed p = Inr True"
    | (shadowed) e where "hasOwnProperty observed p = Inl e"
    by blast
  then have main:
    "matchObjectsInternal (JObj (before @ (p, JNull) # after)) observed
       = (case hasOwnProperty observed p of
            Inl e \<Rightarrow> Inl e
          | Inr b \<Rightarrow> matchObjectsInternal (JObj (before @ after)) observed)
     \<and> matchObjectsInternal (JObj [(p, JNull)]) observed
       = (case hasOwnProperty observed p of Inl e \<Rightarrow> Inl e | Inr b \<Rightarrow> Inr True)"
  proof cases
    case found
    note drop = matchProps_null_property [OF found assms]
    have "matchProps (before @ (p, JNull) # after) observed
            = matchProps (before @ after) observed"
      by (simp only: matchProps_append drop)
    moreover have "matchProps [(p, JNull)] observed = Inr True"
      unfolding drop by simp
    ultimately show ?thesis
      by (simp add: found matchObjectsInternal.simps del: matchProps.simps)
  next
    case shadowed
    have "matchProps (before @ (p, JNull) # after) observed = Inl e"
      using shadowed by (rule matchProps_shadowed) simp
    moreover have "matchProps [(p, JNull)] observed = Inl e"
      using shadowed by (rule matchProps_shadowed) simp
    ultimately show ?thesis
      by (simp add: shadowed matchObjectsInternal.simps del: matchProps.simps)
  qed
  have res: "matchObjects (JObj [(p, JNull)]) observed s
           = (case hasOwnProperty observed p of Inl e \<Rightarrow> Inl e | Inr b \<Rightarrow> Inr True, s)"
    using main by (simp add: matchObjects_def split: sum.split)
  have "fst (matchObjects (JObj [(p, JNull)]) observed s) \<noteq> Inr False"
    unfolding res by (simp split: sum.split)
  with main res matchObjectsInternal_null [of ov] show ?thesis
    by blast
qed

text \<open>
  Two instances. The desired API names its service and leaves \<^verbatim>\<open>tags\<close> null; the observed
  one has the same name and an object as \<^verbatim>\<open>tags\<close>: the comparison reaches the null
  property and returns true. With an observed object that shadows the method, the same
  comparison throws.
\<close>

theorem matchObjects_null_desired_never_mismatch_witness:
  "matchObjectsInternal (JObj [(''name'', JStr ''api''), (''tags'', JNull)])
      (JObj [(''name'', JStr ''api''), (''tags'', JObj [(''k'', JStr ''v'')])]) = Inr True
   \<and> matchObjects (JObj [(''tags'', JNull)])
        (JObj [(''name'', JStr ''api''), (''tags'', JObj [(''k'', JStr ''v'')])])
        initial_state = (Inr True, initial_state)
   \<and> matchObjects (JObj [(''tags'', JNull)])
        (JObj [(''tags'', JObj []), (''hasOwnProperty'', JNum (Num 1))])
        initial_state
       = (Inl (TypeError ''kongObject.hasOwnProperty is not a function''), initial_state)"
  using matchObjects_null_desired_never_mismatch
    [of "JObj [(''name'', JStr ''api''), (''tags'', JObj [(''k'', JStr ''v'')])]"
        "''tags''" "JObj [(''k'', JStr ''v'')]" "[(''name'', JStr ''api'')]" "[]"
        initial_state]
    matchObjects_null_desired_never_mismatch
    [of "JObj [(''tags'', JObj []), (''hasOwnProperty'', JNum (Num 1))]"
        "''tags''" "JObj []" "[]" "[]" initial_state]
  by (simp add: matchObjectsInternal.simps get_own_def)

lemma matchProps_missing:
  assumes "(p, v) \<in> set ps" and "map_of (own_props k) p = None"
  shows "matchProps ps k \<noteq> Inr True"
  using assms
proof (induction ps)
  case Nil
  then show ?case by simp
next
  case (Cons x ps)
  obtain q w where x: "x = (q, w)" by (cases x)
  show ?case
  proof (cases "q = p")
    case True
    then show ?thesis using hasOwnProperty_absent [OF Cons.prems(2)] x
      by (auto split: sum.splits bool.splits)
  next
    case False
    then show ?thesis using Cons x
      by (auto split: sum.splits bool.splits)
  qed
qed

text \<open>
  When desired has a property that observed lacks and the comparison does not throw,
  \<^verbatim>\<open>matchObjects\<close> returns false and, with recording enabled, appends the pair once.
\<close>

lemma matchObjects_missing_property:
  assumes "(p, v) \<in> set (enum_props desired)"
    and "map_of (own_props observed) p = None"
    and "matchObjectsInternal desired observed = Inr r"
  shows "matchObjects desired observed s =
           (Inr False,
            if keepChangingActions s
            then s\<lparr>statistics := (statistics s)\<lparr>failedComparisons :=
                    failedComparisons (statistics s)
                      @ [\<lparr>apiObject = desired, kongObject = observed\<rparr>]\<rparr>\<rparr>
            else s)"
proof -
  have "matchObjectsInternal desired observed \<noteq> Inr True"
    using matchProps_missing [OF assms(1,2)] by (simp add: matchObjectsInternal.simps)
  with assms(3) have "matchObjectsInternal desired observed = Inr False"
    by (cases r) simp_all
  then show ?thesis by (simp add: matchObjects_def)
qed

text \<open>
  C3. The claim is that \<^verbatim>\<open>matchObjects\<close> returns false, and records the pair when
  recording is enabled, whenever desired has a property that observed lacks. Here
  desired is \<^verbatim>\<open>{a: {x: 1}, b: 1}\<close> and observed is \<^verbatim>\<open>{a: null}\<close>, which lacks b. The
  loop reaches a first: both values have run-time type "object", the recursion calls
  \<^verbatim>\<open>hasOwnProperty\<close> on null, and the TypeError leaves \<^verbatim>\<open>matchObjects\<close> before it returns
  or records anything, also with recording enabled.
\<close>

theorem matchObjects_missing_property_throws_on_null:
  "matchObjects
     (JObj [(''a'', JObj [(''x'', JNum (Num 1))]), (''b'', JNum (Num 1))])
     (JObj [(''a'', JNull)])
     (resetStatistics True initial_state)
   = (Inl (TypeError ''Cannot read property hasOwnProperty of null''),
      resetStatistics True initial_state)"
  by (simp add: matchObjects_def matchObjectsInternal.simps get_own_def)

section \<open>Properties of the executor\<close>

lemma after_failures_0 [simp]: "after_failures 0 req s = s"
  by (simp add: after_failures_def)

lemma after_failures_Suc:
  "after_failures n req (s\<lparr>wire := wire s @ [req], kongAvailable := False\<rparr>)
     = after_failures (Suc n) req s"
  by (simp add: after_failures_def replicate_app_Cons_same)

lemma after_failures_final:
  "(after_failures n req s)\<lparr>wire := wire (after_failures n req s) @ [req], kongAvailable := b\<rparr>
     = s\<lparr>wire := wire s @ replicate (Suc n) req, kongAvailable := b\<rparr>"
  by (simp add: after_failures_def replicate_append_same)

lemma wire_after_failures:
  "wire (after_failures n req s) @ [req] = wire s @ replicate (Suc n) req"
  by (simp add: after_failures_def replicate_append_same)

text \<open>
  While the attempt number is at most \<^verbatim>\<open>KONG_MAX_ATTEMPTS\<close>, a transport failure closes
  the gate and leads to the next attempt.
\<close>

lemma tryRequest_retry:
  assumes "\<And>k. k < n \<Longrightarrow> \<exists>e. transport E (wire s @ replicate (Suc k) req) = Failure e"
    and "a + n \<le> Suc KONG_MAX_ATTEMPTS"
  shows "tryRequest E m u req x cb a s
           = tryRequest E m u req x cb (a + n) (after_failures n req s)"
  using assms
proof (induction n arbitrary: a s)
  case 0
  then show ?case by simp
next
  case (Suc n)
  let ?s' = "s\<lparr>wire := wire s @ [req], kongAvailable := False\<rparr>"
  from Suc.prems(1) [of 0] obtain e where e: "transport E (wire s @ [req]) = Failure e"
    by auto
  from Suc.prems(2) have a: "\<not> a > KONG_MAX_ATTEMPTS" by simp
  have step: "tryRequest E m u req x cb a s = tryRequest E m u req x cb (a + 1) ?s'"
    using e a by (subst tryRequest.simps) simp
  have "\<And>k. k < n \<Longrightarrow> \<exists>e. transport E (wire ?s' @ replicate (Suc k) req) = Failure e"
  proof -
    fix k assume "k < n"
    then have "Suc k < Suc n" by simp
    from Suc.prems(1) [OF this]
    show "\<exists>e. transport E (wire ?s' @ replicate (Suc k) req) = Failure e"
      by simp
  qed
  moreover from Suc.prems(2) have "(a + 1) + n \<le> Suc KONG_MAX_ATTEMPTS" by simp
  ultimately have "tryRequest E m u req x cb (a + 1) ?s'
      = tryRequest E m u req x cb ((a + 1) + n) (after_failures n req ?s')"
    by (rule Suc.IH)
  with step show ?case by (simp add: after_failures_Suc)
qed

text \<open>A response on attempt \<open>n\<close>, after \<open>n\<close> failures, ends the retries.\<close>

lemma tryRequest_response:
  assumes "\<And>k. k < n \<Longrightarrow> \<exists>e. transport E (wire s @ replicate (Suc k) req) = Failure e"
    and "n \<le> Suc KONG_MAX_ATTEMPTS"
    and "transport E (wire s @ replicate (Suc n) req) = Response code apiBody"
  shows "tryRequest E m u req x cb 0 s =
     (if x \<noteq> code
      then cb (Some (unexpected_status m u code x)) JUndefined
             (s\<lparr>wire := wire s @ replicate (Suc n) req, kongAvailable := True\<rparr>)
      else (case getJson E apiBody of
              Inl e \<Rightarrow>
                throw e (s\<lparr>wire := wire s @ replicate (Suc n) req, kongAvailable := True\<rparr>)
            | Inr v \<Rightarrow>
                cb None v
                  (s\<lparr>wire := wire s @ replicate (Suc n) req, kongAvailable := True\<rparr>)))"
proof -
  let ?t = "after_failures n req s"
  have "tryRequest E m u req x cb 0 s = tryRequest E m u req x cb (0 + n) ?t"
    using assms(1,2) by (intro tryRequest_retry) simp_all
  also have "\<dots> = tryRequest E m u req x cb n ?t" by simp
  also have "\<dots> =
     (if x \<noteq> code
      then cb (Some (unexpected_status m u code x)) JUndefined
             (?t\<lparr>wire := wire ?t @ [req], kongAvailable := True\<rparr>)
      else (case getJson E apiBody of
              Inl e \<Rightarrow> throw e (?t\<lparr>wire := wire ?t @ [req], kongAvailable := True\<rparr>)
            | Inr v \<Rightarrow> cb None v (?t\<lparr>wire := wire ?t @ [req], kongAvailable := True\<rparr>)))"
    using assms(3)
    by (subst tryRequest.simps) (simp add: wire_after_failures del: replicate_Suc)
  finally show ?thesis unfolding after_failures_final .
qed

text \<open>
  The executor gives up on the failure of attempt number \<^verbatim>\<open>KONG_MAX_ATTEMPTS + 1\<close>, the
  twelfth request: it opens the gate and hands the error of that attempt to the callback.
\<close>

lemma tryRequest_gives_up:
  assumes "\<And>k. k < Suc KONG_MAX_ATTEMPTS \<Longrightarrow>
             \<exists>e. transport E (wire s @ replicate (Suc k) req) = Failure e"
    and "transport E (wire s @ replicate (Suc (Suc KONG_MAX_ATTEMPTS)) req) = Failure err"
  shows "tryRequest E m u req x cb 0 s =
     cb (Some err) JUndefined
       (s\<lparr>wire := wire s @ replicate (Suc (Suc KONG_MAX_ATTEMPTS)) req,
          kongAvailable := True\<rparr>)"
proof -
  let ?n = "Suc KONG_MAX_ATTEMPTS"
  let ?t = "after_failures ?n req s"
  have "tryRequest E m u req x cb 0 s = tryRequest E m u req x cb (0 + ?n) ?t"
    using assms(1) by (intro tryRequest_retry) simp_all
  also have "\<dots> = tryRequest E m u req x cb ?n ?t" by simp
  also have "\<dots> = cb (Some err) JUndefined
       (?t\<lparr>wire := wire ?t @ [req], kongAvailable := True\<rparr>)"
    using assms(2)
    by (subst tryRequest.simps) (simp add: wire_after_failures del: replicate_Suc)
  finally show ?thesis unfolding after_failures_final .
qed

lemma kongActionStat_fields:
  "kongAvailable (kongActionStat m u b s) = kongAvailable s"
  "kongUrl (kongActionStat m u b s) = kongUrl s"
  "kongMessage (kongActionStat m u b s) = kongMessage s"
  "wire (kongActionStat m u b s) = wire s"
  "calls (kongActionStat m u b s) = calls s"
  "uncaught (kongActionStat m u b s) = uncaught s"
  "keepChangingActions (kongActionStat m u b s) = keepChangingActions s"
  by (simp_all add: kongActionStat_def Let_def)

lemma kongAction_request:
  assumes "kongAvailable s" and "kongUrl s = Some base" and "base \<noteq> []"
  shows "kongAction E m u b x cb s
           = tryRequest E m u (methodBody_of m base u b) x cb 0 (kongActionStat m u b s)"
  using assms by (simp add: kongAction_def Let_def kongActionStat_fields getKongUrl_def)

lemma ready_state_fields:
  "kongAvailable ready_state"
  "kongUrl ready_state = Some ''http://kong:8001/''"
  "wire ready_state = []"
  "calls ready_state = []"
  "uncaught ready_state = None"
  by (simp_all add: ready_state_def setKongUrl_def initial_state_def)

text \<open>
  With the gate open, a transport that never answers makes \<^verbatim>\<open>kongAction\<close> send the
  request twelve times (attempts 0 to 11) and then call back once with the error of the
  last attempt, the gate open again.
\<close>

lemma kongAction_gives_up:
  assumes "kongAvailable s" and "kongUrl s = Some base" and "base \<noteq> []"
    and "\<And>k. k < Suc KONG_MAX_ATTEMPTS \<Longrightarrow>
           \<exists>e. transport E (wire s @ replicate (Suc k) (methodBody_of m base u b)) = Failure e"
    and "transport E (wire s @ replicate (Suc (Suc KONG_MAX_ATTEMPTS)) (methodBody_of m base u b))
           = Failure err"
  shows "kongAction E m u b x cb s =
     cb (Some err) JUndefined
       ((kongActionStat m u b s)
          \<lparr>wire := wire s @ replicate (Suc (Suc KONG_MAX_ATTEMPTS)) (methodBody_of m base u b),
           kongAvailable := True\<rparr>)"
proof -
  let ?s = "kongActionStat m u b s"
  have "kongAction E m u b x cb s = tryRequest E m u (methodBody_of m base u b) x cb 0 ?s"
    using assms(1-3) by (rule kongAction_request)
  also have "\<dots> = cb (Some err) JUndefined
       (?s\<lparr>wire := wire ?s @ replicate (Suc (Suc KONG_MAX_ATTEMPTS)) (methodBody_of m base u b),
           kongAvailable := True\<rparr>)"
    using assms(4,5) by (intro tryRequest_gives_up) (simp_all add: kongActionStat_fields)
  finally show ?thesis by (simp add: kongActionStat_fields)
qed

text \<open>
  C2. The claim is that eleven transport failures, on attempts 0 to 10, make \<^verbatim>\<open>kongAction\<close>
  call back with the transport error. Here the transport refuses the first eleven
  requests and answers the twelfth with status 200 and the body \<^verbatim>\<open>{}\<close>. The test
  \<^verbatim>\<open>attempt > KONG_MAX_ATTEMPTS\<close> is still false on attempt 10, so the executor sends a
  twelfth request and its one callback carries the parsed body and no error.
\<close>

theorem kongAction_retries_after_eleven_failures:
  "calls (kongAction (sim_env (fails_then 11 (Response 200 (JStr ''{}'')))) GET ''status'' JNull
            200 deliver ready_state) = [(None, JObj [])]
   \<and> length (wire (kongAction (sim_env (fails_then 11 (Response 200 (JStr ''{}'')))) GET
            ''status'' JNull 200 deliver ready_state)) = 12"
proof -
  let ?E = "sim_env (fails_then 11 (Response 200 (JStr ''{}'')))"
  let ?req = "methodBody_of GET ''http://kong:8001/'' ''status'' JNull"
  let ?s = "kongActionStat GET ''status'' JNull ready_state"
  note r = ready_state_fields
  have "kongAction ?E GET ''status'' JNull 200 deliver ready_state
          = tryRequest ?E GET ''status'' ?req 200 deliver 0 ?s"
    using r by (intro kongAction_request) simp_all
  also have "\<dots> = deliver None (JObj [])
        (?s\<lparr>wire := wire ?s @ replicate (Suc 11) ?req, kongAvailable := True\<rparr>)"
    by (subst tryRequest_response [where n = 11 and code = 200 and apiBody = "JStr ''{}''"])
       (simp_all add: kongActionStat_fields r sim_env_def fails_then_def KONG_MAX_ATTEMPTS_def
          getJson_def del: replicate_Suc)
  finally show ?thesis
    by (simp add: deliver_def kongActionStat_fields r)
qed

text \<open>
  C4, as the code has it. When the gate is open, the URL is set, and the request is
  answered (on the first attempt or after failed ones) with a status code other than the
  expected one, \<^verbatim>\<open>kongAction\<close> calls back once with an error whose message names the verb,
  the path, the status code received and the one expected, and whose \<^verbatim>\<open>status\<close> is the
  code received. The response body is no part of that error.
\<close>

theorem kongAction_unexpected_status:
  assumes "kongAvailable s" and "kongUrl s = Some base" and "base \<noteq> []"
    and "\<And>k. k < n \<Longrightarrow>
           \<exists>e. transport E (wire s @ replicate (Suc k) (methodBody_of m base u b)) = Failure e"
    and "n \<le> Suc KONG_MAX_ATTEMPTS"
    and "transport E (wire s @ replicate (Suc n) (methodBody_of m base u b))
           = Response code apiBody"
    and "code \<noteq> expected"
  shows "kongAction E m u b expected cb s =
     cb (Some \<lparr>message = ''kongAction '' @ verb_name m @ '' on '' @ u
                  @ '' did not return the expected status code (got: '' @ string_of_nat code
                  @ '', expected: '' @ string_of_nat expected @ '').'',
               status = Some code\<rparr>)
        JUndefined
        ((kongActionStat m u b s)
           \<lparr>wire := wire s @ replicate (Suc n) (methodBody_of m base u b),
            kongAvailable := True\<rparr>)"
proof -
  let ?s = "kongActionStat m u b s"
  have "kongAction E m u b expected cb s
          = tryRequest E m u (methodBody_of m base u b) expected cb 0 ?s"
    using assms(1-3) by (rule kongAction_request)
  also have "\<dots> = cb (Some (unexpected_status m u code expected)) JUndefined
        (?s\<lparr>wire := wire ?s @ replicate (Suc n) (methodBody_of m base u b),
            kongAvailable := True\<rparr>)"
    using assms(4-7)
    by (subst tryRequest_response [where n = n and code = code and apiBody = apiBody])
       (simp_all add: kongActionStat_fields del: replicate_Suc)
  finally show ?thesis
    by (simp add: unexpected_status_def kongActionStat_fields del: replicate_Suc)
qed

lemma string_of_nat_codes:
  "string_of_nat 404 = ''404''" "string_of_nat 200 = ''200''"
  by (simp_all add: string_of_nat.simps digit_char_def)

text \<open>An instance: the first attempt fails, the second is answered with 404.\<close>

theorem kongAction_unexpected_status_witness:
  "kongAction (sim_env (fails_then 1 (Response 404 (JStr ''{}'')))) GET ''consumers/x'' JNull 200
     deliver ready_state
   = deliver
       (Some \<lparr>message = ''kongAction GET on consumers/x did not return the expected status code (got: 404, expected: 200).'',
              status = Some 404\<rparr>)
       JUndefined
       ((kongActionStat GET ''consumers/x'' JNull ready_state)
          \<lparr>wire := [methodBody_of GET ''http://kong:8001/'' ''consumers/x'' JNull,
                    methodBody_of GET ''http://kong:8001/'' ''consumers/x'' JNull],
           kongAvailable := True\<rparr>)"
  using kongAction_unexpected_status
    [of ready_state "''http://kong:8001/''" 1
        "sim_env (fails_then 1 (Response 404 (JStr ''{}'')))"
        GET "''consumers/x''" JNull 404 "JStr ''{}''" 200 deliver]
  by (simp add: ready_state_fields sim_env_def fails_then_def KONG_MAX_ATTEMPTS_def
        string_of_nat_codes)

text \<open>
  C4, as stated, fails: two answers with the same unexpected status code and different
  bodies give the callback the same error, so the error does not carry the body.
\<close>

theorem kongAction_error_without_body_counterexample:
  "calls (kongAction (sim_env (fails_then 0 (Response 404 (JStr ''no such consumer'')))) GET
            ''consumers/x'' JNull 200 deliver ready_state)
   = calls (kongAction (sim_env (fails_then 0 (Response 404 (JStr ''no such route'')))) GET
            ''consumers/x'' JNull 200 deliver ready_state)
   \<and> JStr ''no such consumer'' \<noteq> JStr ''no such route''"
proof -
  let ?req = "methodBody_of GET ''http://kong:8001/'' ''consumers/x'' JNull"
  let ?s = "kongActionStat GET ''consumers/x'' JNull ready_state"
  note r = ready_state_fields
  have "kongAction (sim_env (fails_then 0 (Response 404 apiBody))) GET ''consumers/x'' JNull 200
          deliver ready_state
     = deliver (Some (unexpected_status GET ''consumers/x'' 404 200)) JUndefined
        (?s\<lparr>wire := wire ?s @ replicate (Suc 0) ?req, kongAvailable := True\<rparr>)" for apiBody
  proof -
    let ?E = "sim_env (fails_then 0 (Response 404 apiBody))"
    have "kongAction ?E GET ''consumers/x'' JNull 200 deliver ready_state
          = tryRequest ?E GET ''consumers/x'' ?req 200 deliver 0 ?s"
      using r by (intro kongAction_request) simp_all
    also have "\<dots> = deliver (Some (unexpected_status GET ''consumers/x'' 404 200)) JUndefined
        (?s\<lparr>wire := wire ?s @ replicate (Suc 0) ?req, kongAvailable := True\<rparr>)"
      by (subst tryRequest_response [where n = 0 and code = 404 and apiBody = apiBody])
         (simp_all add: kongActionStat_fields r sim_env_def fails_then_def)
    finally show ?thesis .
  qed
  then show ?thesis by simp
qed

text \<open>
  C9. While the gate reports unavailable, \<^verbatim>\<open>kongAction\<close> still records the call: the
  counter of the verb goes up by one and, for a verb other than GET with action logging
  enabled, the action is appended to the log. Then it calls back with the error "kong
  admin end point not available" of status 500, and no request is sent: the state that
  the callback sees differs from the one before only in the statistics.
\<close>

theorem kongAction_unavailable_still_counted:
  assumes "\<not> kongAvailable s"
  shows "kongAction E m u b x cb s
           = cb (Some \<lparr>message = ''kong admin end point not available: ''
                          @ message_text (kongMessage s),
                       status = Some 500\<rparr>)
               JUndefined (kongActionStat m u b s)
         \<and> wire (kongActionStat m u b s) = wire s
         \<and> counters (statistics (kongActionStat m u b s)) m
             = Some (Suc (case counters (statistics s) m of None \<Rightarrow> 0 | Some c \<Rightarrow> c))
         \<and> actions (statistics (kongActionStat m u b s))
             = actions (statistics s)
               @ (if keepChangingActions s \<and> m \<noteq> GET
                  then [\<lparr>act_method = m, act_url = u, act_body = b\<rparr>] else [])"
  using assms
  by (simp add: kongAction_def Let_def kongActionStat_fields unavailable_error_def)
     (simp add: kongActionStat_def Let_def)

text \<open>
  An instance: a POST with action logging enabled, after the gate was marked unavailable
  with the message ECONNREFUSED.
\<close>

theorem kongAction_unavailable_still_counted_witness:
  "kongAction (sim_env (fails_then 0 (Response 201 (JObj [])))) POST ''consumers''
      (JObj [(''username'', JStr ''app$api'')]) 201 deliver
      (markKongAvailable False (Some ''ECONNREFUSED'') JNull (resetStatistics True ready_state))
    = (markKongAvailable False (Some ''ECONNREFUSED'') JNull ready_state)
       \<lparr>statistics :=
          \<lparr>counters = (\<lambda>m. None)(POST \<mapsto> 1),
           actions = [\<lparr>act_method = POST, act_url = ''consumers'',
                       act_body = JObj [(''username'', JStr ''app$api'')]\<rparr>],
           failedComparisons = []\<rparr>,
        keepChangingActions := True,
        calls := [(Some \<lparr>message = ''kong admin end point not available: ECONNREFUSED'',
                         status = Some 500\<rparr>, JUndefined)]\<rparr>"
  using kongAction_unavailable_still_counted
    [of "markKongAvailable False (Some ''ECONNREFUSED'') JNull (resetStatistics True ready_state)"
        "sim_env (fails_then 0 (Response 201 (JObj [])))" POST "''consumers''"
        "JObj [(''username'', JStr ''app$api'')]" 201 deliver]
  by (simp add: markKongAvailable_def resetStatistics_def ready_state_def setKongUrl_def
        initial_state_def deliver_def kongActionStat_def Let_def defaultStatistics_def
        message_text_def)

text \<open>A call whose callback only notes its arguments changes the statistics by its own record alone.\<close>

lemma tryRequest_deliver_statistics:
  "statistics (tryRequest E m u req x deliver a s) = statistics s
   \<and> keepChangingActions (tryRequest E m u req x deliver a s) = keepChangingActions s"
proof (induction E m u req x "deliver" a s rule: tryRequest.induct)
  case (1 E m u req x a s)
  have step: "tryRequest E m u req x deliver a s =
     (case transport E (wire s @ [req]) of
        Failure err \<Rightarrow>
          if a > KONG_MAX_ATTEMPTS
          then deliver (Some err) JUndefined
                 (s\<lparr>wire := wire s @ [req], kongAvailable := True\<rparr>)
          else tryRequest E m u req x deliver (a + 1)
                 (s\<lparr>wire := wire s @ [req], kongAvailable := False\<rparr>)
      | Response statusCode apiBody \<Rightarrow>
          if x \<noteq> statusCode
          then deliver (Some (unexpected_status m u statusCode x)) JUndefined
                 (s\<lparr>wire := wire s @ [req], kongAvailable := True\<rparr>)
          else (case getJson E apiBody of
                  Inl e \<Rightarrow> throw e (s\<lparr>wire := wire s @ [req], kongAvailable := True\<rparr>)
                | Inr v \<Rightarrow>
                    deliver None v (s\<lparr>wire := wire s @ [req], kongAvailable := True\<rparr>)))"
    by (rule tryRequest.simps)
  show ?case
  proof (cases "transport E (wire s @ [req])")
    case (Failure err)
    show ?thesis
    proof (cases "a > KONG_MAX_ATTEMPTS")
      case True
      with Failure show ?thesis by (simp add: step deliver_def)
    next
      case False
      with Failure 1 [OF Failure False] show ?thesis by (simp add: step)
    qed
  next
    case (Response statusCode apiBody)
    then show ?thesis
      by (simp add: step deliver_def throw_def split: sum.split)
  qed
qed

lemma kongAction_deliver_statistics:
  "statistics (kongAction E m u b x deliver s) = statistics (kongActionStat m u b s)"
  "keepChangingActions (kongAction E m u b x deliver s) = keepChangingActions s"
  by (simp_all add: kongAction_def Let_def tryRequest_deliver_statistics deliver_def throw_def
        kongActionStat_fields split: sum.split)

text \<open>
  C8. After \<^verbatim>\<open>resetStatistics(true)\<close>, one POST and one GET, whatever the gateway
  answers, \<^verbatim>\<open>getStatistics()\<close> returns a POST counter of 1, a GET counter of 1, and an
  action log that holds the POST and nothing else. That call clears the retention flag:
  a later call of any verb leaves the action log as it was.
\<close>

theorem statistics_after_post_and_get:
  "(let s1 = resetStatistics True s0;
        s2 = kongPost E u1 b1 deliver s1;
        s3 = kongGet E u2 deliver s2;
        (st, s4) = getStatistics s3
    in counters st POST = Some 1
       \<and> counters st GET = Some 1
       \<and> actions st = [\<lparr>act_method = POST, act_url = u1, act_body = b1\<rparr>]
       \<and> \<not> keepChangingActions s4
       \<and> actions (statistics (kongAction E m u b x deliver s4)) = actions st)"
  by (simp add: Let_def getStatistics_def kongPost_def kongGet_def kongAction_deliver_statistics)
     (simp add: kongActionStat_def Let_def resetStatistics_def defaultStatistics_def
        kongAction_deliver_statistics)

section \<open>Properties of the composite accessors\<close>









text \<open>A request answered on the first attempt.\<close>

lemma kongAction_answered:
  assumes "kongAvailable s" and "kongUrl s = Some base" and "base \<noteq> []"
    and "transport E (wire s @ [methodBody_of m base u b]) = Response code apiBody"
  shows "kongAction E m u b x cb s =
     (if x \<noteq> code
      then cb (Some (unexpected_status m u code x)) JUndefined
             ((kongActionStat m u b s)\<lparr>wire := wire s @ [methodBody_of m base u b], kongAvailable := True\<rparr>)
      else (case getJson E apiBody of
              Inl e \<Rightarrow>
                throw e ((kongActionStat m u b s)\<lparr>wire := wire s @ [methodBody_of m base u b], kongAvailable := True\<rparr>)
            | Inr v \<Rightarrow>
                cb None v
                  ((kongActionStat m u b s)\<lparr>wire := wire s @ [methodBody_of m base u b], kongAvailable := True\<rparr>)))"
proof -
  let ?s = "kongActionStat m u b s"
  have "kongAction E m u b x cb s = tryRequest E m u (methodBody_of m base u b) x cb 0 ?s"
    using assms(1-3) by (rule kongAction_request)
  also have "\<dots> = 
     (if x \<noteq> code
      then cb (Some (unexpected_status m u code x)) JUndefined
             (?s\<lparr>wire := wire ?s @ replicate (Suc 0) (methodBody_of m base u b), kongAvailable := True\<rparr>)
      else (case getJson E apiBody of
              Inl e \<Rightarrow>
                throw e (?s\<lparr>wire := wire ?s @ replicate (Suc 0) (methodBody_of m base u b), kongAvailable := True\<rparr>)
            | Inr v \<Rightarrow>
                cb None v
                  (?s\<lparr>wire := wire ?s @ replicate (Suc 0) (methodBody_of m base u b), kongAvailable := True\<rparr>)))"
    using assms(4)
    by (intro tryRequest_response [where n = 0]) (simp_all add: kongActionStat_fields)
  finally show ?thesis
    by (simp add: kongActionStat_fields cong: sum.case_cong if_cong)
qed


lemma gateway_fields:
  \<open>transport gateway (h @ [methodBody_of GET ''http://kong:8001/'' ''services/s1/routes'' JNull])
     = Response 200 (JStr ''{"data":[{"id":"r1","service":{"id":"s1"}}]}'')\<close>
  \<open>transport gateway (h @ [methodBody_of GET ''http://kong:8001/'' ''services/s2/routes'' JNull])
     = Response 200 (JStr ''{"data":[]}'')\<close>
  \<open>transport gateway (h @ [methodBody_of GET ''http://kong:8001/'' ''services/s3/routes'' JNull])
     = Response 500 (JStr ''internal error'')\<close>
  \<open>transport gateway (h @ [methodBody_of PATCH ''http://kong:8001/'' ''services/s1'' b])
     = Response 400 (JObj [(''message'', JStr ''schema violation'')])\<close>
  \<open>transport gateway (h @ [methodBody_of DELETE ''http://kong:8001/'' ''routes/r1'' JNull])
     = Response 204 (JStr [])\<close>
  \<open>transport gateway (h @ [methodBody_of DELETE ''http://kong:8001/'' ''services/s1'' JNull])
     = Response 204 (JStr [])\<close>
  \<open>getJson gateway (JStr ''{"data":[{"id":"r1","service":{"id":"s1"}}]}'')
     = Inr (JObj [(''data'', JArr [JObj [(''id'', JStr ''r1''),
                                          (''service'', JObj [(''id'', JStr ''s1'')])]])])\<close>
  \<open>getJson gateway (JStr ''{"data":[]}'') = Inr (JObj [(''data'', JArr [])])\<close>
  \<open>getJson gateway (JStr []) = Inr JNull\<close>
  \<open>kongApiToServiceRoute gateway api = ([], [])\<close>
  \<open>kongServiceRouteToApi gateway sv rt = Inr (JObj [])\<close>
  by (simp_all add: gateway_def sim_env_def scripted_def methodBody_of_def getJson_def)

lemma string_of_nat_0: "string_of_nat 0 = ''0''"
  by (simp add: string_of_nat.simps digit_char_def)

text \<open>
  C6. The claim is that \<^verbatim>\<open>kongDeleteApi\<close> hands an error to the caller's callback when no
  route is found for the service. Here the gateway answers the lookup for s2 with an
  empty list, so \<^verbatim>\<open>kongGetRouteForService\<close> calls back with \<^verbatim>\<open>(null, null)\<close>. \<^verbatim>\<open>kongDeleteApi\<close>
  does not test the route as \<^verbatim>\<open>kongPatchApi\<close> does: it reads \<^verbatim>\<open>route.id\<close> of null, and the
  TypeError ends the run inside the response handler. The callback is never called.
\<close>

theorem kongDeleteApi_no_route_throws:
  "kongDeleteApi gateway ''s2'' deliver ready_state
     = throw (TypeError ''Cannot read property id of null'')
         ((kongActionStat GET ''services/s2/routes'' JNull ready_state)
            \<lparr>wire := [methodBody_of GET ''http://kong:8001/'' ''services/s2/routes'' JNull],
             kongAvailable := True\<rparr>)
   \<and> calls (kongDeleteApi gateway ''s2'' deliver ready_state) = []"
proof -
  note r = ready_state_fields
  have "kongAction gateway GET ''services/s2/routes'' JNull 200 cb ready_state
      = cb None (JObj [(''data'', JArr [])])
          ((kongActionStat GET ''services/s2/routes'' JNull ready_state)
            \<lparr>wire := [methodBody_of GET ''http://kong:8001/'' ''services/s2/routes'' JNull],
             kongAvailable := True\<rparr>)" for cb
    by (subst kongAction_answered [OF r(1,2) _ gateway_fields(2)])
       (simp_all add: gateway_fields r)
  then have "kongDeleteApi gateway ''s2'' deliver ready_state
     = throw (TypeError ''Cannot read property id of null'')
         ((kongActionStat GET ''services/s2/routes'' JNull ready_state)
            \<lparr>wire := [methodBody_of GET ''http://kong:8001/'' ''services/s2/routes'' JNull],
             kongAvailable := True\<rparr>)"
    by (simp add: kongDeleteApi_def kongGetRouteForService_def kongGet_def get_own_def
          index_keys_def)
  then show ?thesis
    by (simp add: throw_def kongActionStat_fields r)
qed

text \<open>The lookup of the route of s1.\<close>

lemma kongGetRouteForService_s1:
  "kongGetRouteForService gateway ''s1'' cb ready_state
      = cb None (JObj [(''id'', JStr ''r1''), (''service'', JObj [(''id'', JStr ''s1'')])])
          ((kongActionStat GET ''services/s1/routes'' JNull ready_state)
            \<lparr>wire := [methodBody_of GET ''http://kong:8001/'' ''services/s1/routes'' JNull],
             kongAvailable := True\<rparr>)"
proof -
  note r = ready_state_fields
  have "kongAction gateway GET ''services/s1/routes'' JNull 200 cb ready_state
      = cb None (JObj [(''data'', JArr [JObj [(''id'', JStr ''r1''),
                                          (''service'', JObj [(''id'', JStr ''s1'')])]])])
          ((kongActionStat GET ''services/s1/routes'' JNull ready_state)
            \<lparr>wire := [methodBody_of GET ''http://kong:8001/'' ''services/s1/routes'' JNull],
             kongAvailable := True\<rparr>)" for cb
    by (subst kongAction_answered [OF r(1,2) _ gateway_fields(1)])
       (simp_all add: gateway_fields r)
  then show ?thesis
    by (simp add: kongGetRouteForService_def kongGet_def get_own_def index_keys_def
        string_of_nat_0)
qed

text \<open>
  The other half of C6 holds: where the route is found, the route is deleted before the
  service.
\<close>

lemma kongDeleteApi_route_before_service:
  "wire (kongDeleteApi gateway ''s1'' deliver ready_state)
     = [methodBody_of GET ''http://kong:8001/'' ''services/s1/routes'' JNull,
        methodBody_of DELETE ''http://kong:8001/'' ''routes/r1'' JNull,
        methodBody_of DELETE ''http://kong:8001/'' ''services/s1'' JNull]
   \<and> calls (kongDeleteApi gateway ''s1'' deliver ready_state) = [(None, JNull)]"
proof -
  note r = ready_state_fields
  let ?s1 = "(kongActionStat GET ''services/s1/routes'' JNull ready_state)
            \<lparr>wire := [methodBody_of GET ''http://kong:8001/'' ''services/s1/routes'' JNull],
             kongAvailable := True\<rparr>"
  let ?s2 = "(kongActionStat DELETE ''routes/r1'' JNull ?s1)
            \<lparr>wire := [methodBody_of GET ''http://kong:8001/'' ''services/s1/routes'' JNull,
                      methodBody_of DELETE ''http://kong:8001/'' ''routes/r1'' JNull],
             kongAvailable := True\<rparr>"
  let ?s3 = "(kongActionStat DELETE ''services/s1'' JNull ?s2)
            \<lparr>wire := [methodBody_of GET ''http://kong:8001/'' ''services/s1/routes'' JNull,
                      methodBody_of DELETE ''http://kong:8001/'' ''routes/r1'' JNull,
                      methodBody_of DELETE ''http://kong:8001/'' ''services/s1'' JNull],
             kongAvailable := True\<rparr>"
  have d1: "kongAction gateway DELETE ''routes/r1'' JNull 204 cb ?s1 = cb None JNull ?s2" for cb
    by (subst kongAction_answered [where base = "''http://kong:8001/''" and code = 204 and apiBody = "JStr []"])
       (simp_all add: gateway_fields r kongActionStat_fields,
        simp_all add: gateway_def sim_env_def scripted_def methodBody_of_def)
  have d2: "kongAction gateway DELETE ''services/s1'' JNull 204 cb ?s2 = cb None JNull ?s3" for cb
    by (subst kongAction_answered [where base = "''http://kong:8001/''" and code = 204 and apiBody = "JStr []"])
       (simp_all add: gateway_fields r kongActionStat_fields,
        simp_all add: gateway_def sim_env_def scripted_def methodBody_of_def)
  have "kongDeleteApi gateway ''s1'' deliver ready_state = deliver None JNull ?s3"
    by (simp add: kongDeleteApi_def kongGetRouteForService_s1 get_own_def kongDeleteRoute_def kongDelete_def d1
          kongDeleteService_def d2)
  then show ?thesis
    by (simp add: deliver_def kongActionStat_fields r)
qed

text \<open>
  C7. The claim is that \<^verbatim>\<open>kongPatchApi\<close> hands every error of a sub-call to its callback.
  For s3 the route lookup is answered with status 500: the handler runs \<^verbatim>\<open>return err\<close>, so
  the callback is never called and nothing is thrown. For s1 the lookup finds the route
  and the Service PATCH is answered with status 400: the final function of
  \<^verbatim>\<open>async.series\<close> ignores its error argument and calls back with \<^verbatim>\<open>null\<close> as the error.
\<close>

theorem kongPatchApi_drops_errors:
  "calls (kongPatchApi gateway ''s3'' (JObj []) deliver ready_state) = []
   \<and> uncaught (kongPatchApi gateway ''s3'' (JObj []) deliver ready_state) = None
   \<and> calls (kongPatchApi gateway ''s1'' (JObj []) deliver ready_state) = [(None, JObj [])]"
proof -
  note r = ready_state_fields
  let ?s0 = "(kongActionStat GET ''services/s3/routes'' JNull ready_state)
            \<lparr>wire := [methodBody_of GET ''http://kong:8001/'' ''services/s3/routes'' JNull],
             kongAvailable := True\<rparr>"
  have "kongAction gateway GET ''services/s3/routes'' JNull 200 cb ready_state
      = cb (Some (unexpected_status GET ''services/s3/routes'' 500 200)) JUndefined ?s0" for cb
    by (subst kongAction_answered [OF r(1,2) _ gateway_fields(3)])
       (simp_all add: gateway_fields r)
  then have a: "kongPatchApi gateway ''s3'' (JObj []) deliver ready_state = ?s0"
    by (simp add: kongPatchApi_def gateway_fields kongGetRouteForService_def kongGet_def)
  let ?s1 = "(kongActionStat GET ''services/s1/routes'' JNull ready_state)
            \<lparr>wire := [methodBody_of GET ''http://kong:8001/'' ''services/s1/routes'' JNull],
             kongAvailable := True\<rparr>"
  let ?svc = "JObj [(''id'', JStr ''s1'')]"
  let ?s2 = "(kongActionStat PATCH ''services/s1'' ?svc ?s1)
            \<lparr>wire := [methodBody_of GET ''http://kong:8001/'' ''services/s1/routes'' JNull,
                      methodBody_of PATCH ''http://kong:8001/'' ''services/s1'' ?svc],
             kongAvailable := True\<rparr>"
  have p: "kongAction gateway PATCH ''services/s1'' ?svc 200 cb ?s1
      = cb (Some (unexpected_status PATCH ''services/s1'' 400 200)) JUndefined ?s2" for cb
    by (subst kongAction_answered [where base = "''http://kong:8001/''" and code = 400
          and apiBody = "JObj [(''message'', JStr ''schema violation'')]"])
       (simp_all add: gateway_fields r kongActionStat_fields,
        simp_all add: gateway_def sim_env_def scripted_def methodBody_of_def)
  have b: "kongPatchApi gateway ''s1'' (JObj []) deliver ready_state = deliver None (JObj []) ?s2"
    by (simp add: kongPatchApi_def gateway_fields kongGetRouteForService_s1 get_own_def kongPatchService_def
          kongPatch_def p)
  show ?thesis
    by (simp add: a b deliver_def kongActionStat_fields r ready_state_fields)
qed

end
